theory Spec2Isabelle
  imports Main
begin

unbundle bit_operations_syntax

section \<open>Python values and the JSON encoder used by the writer\<close>

text \<open>
  A Python \<open>str\<close> is a sequence of Unicode code points; names of users, channels and
  emoji are not limited to one byte, so a string is a list of code points. The journal
  file is text; what \<open>json.dump\<close> writes with its default \<open>ensure_ascii=True\<close> is
  ASCII only, so the file content is a \<open>char list\<close>.
\<close>

type_synonym pystr = "nat list"

definition str :: "string \<Rightarrow> pystr" where
  "str s = map of_char s"

text \<open>
  The values that reach \<open>json.dump\<close> in \<open>app.py\<close>: \<open>None\<close>, \<open>int\<close>, \<open>float\<close> (the
  timestamp), \<open>str\<close> and \<open>dict\<close> with \<open>str\<close> keys. A dict keeps insertion order, which
  is the order \<open>json.dump\<close> writes. The type \<open>'t\<close> stands for Python's \<open>float\<close>.
\<close>

datatype 't pyval =
    PyNone
  | PyInt int
  | PyFloat 't
  | PyStr pystr
  | PyDict "(pystr \<times> 't pyval) list"

abbreviation newline :: char where
  "newline \<equiv> CHR 0x0A"

abbreviation dquote :: char where
  "dquote \<equiv> CHR 0x22"

abbreviation backslash :: char where
  "backslash \<equiv> CHR 0x5C"

abbreviation quoted :: "string \<Rightarrow> string" where
  "quoted s \<equiv> [dquote] @ s @ [dquote]"

definition hexdigit :: "nat \<Rightarrow> char" where
  "hexdigit d = ''0123456789abcdef'' ! (d mod 16)"

text \<open>\<open>'{0:04x}'.format(n)\<close> for \<open>n < 0x10000\<close>.\<close>

definition hex4 :: "nat \<Rightarrow> string" where
  "hex4 n = [hexdigit (n div 4096), hexdigit (n div 256), hexdigit (n div 16), hexdigit n]"

text \<open>
  \<open>json.encoder.ESCAPE_ASCII = re.compile(r'([\\"]|[^\ -~])')\<close>: the code points that
  are replaced.
\<close>

definition ESCAPE_ASCII :: "nat \<Rightarrow> bool" where
  "ESCAPE_ASCII n \<longleftrightarrow> n = 0x5C \<or> n = 0x22 \<or> \<not> (0x20 \<le> n \<and> n \<le> 0x7E)"

text \<open>\<open>json.encoder.ESCAPE_DCT\<close>, with the entries added for every code point below 0x20.\<close>

definition ESCAPE_DCT :: "nat \<Rightarrow> string option" where
  "ESCAPE_DCT n =
     (if n = 0x5C then Some [backslash, backslash]
      else if n = 0x22 then Some [backslash, dquote]
      else if n = 0x08 then Some [backslash, CHR ''b'']
      else if n = 0x0C then Some [backslash, CHR ''f'']
      else if n = 0x0A then Some [backslash, CHR ''n'']
      else if n = 0x0D then Some [backslash, CHR ''r'']
      else if n = 0x09 then Some [backslash, CHR ''t'']
      else if n < 0x20 then Some ([backslash, CHR ''u''] @ hex4 n)
      else None)"

text \<open>The \<open>replace\<close> function of \<open>py_encode_basestring_ascii\<close>.\<close>

definition replace :: "nat \<Rightarrow> string" where
  "replace n =
     (case ESCAPE_DCT n of
        Some e \<Rightarrow> e
      | None \<Rightarrow>
          if n < 0x10000 then [backslash, CHR ''u''] @ hex4 n
          else
            let n' = n - 0x10000;
                s1 = 0xd800 OR (drop_bit 10 n' AND 0x3ff);
                s2 = 0xdc00 OR (n' AND 0x3ff)
            in [backslash, CHR ''u''] @ hex4 s1 @ [backslash, CHR ''u''] @ hex4 s2)"

definition py_encode_basestring_ascii :: "pystr \<Rightarrow> string" where
  "py_encode_basestring_ascii s =
     [dquote] @ concat (map (\<lambda>n. if ESCAPE_ASCII n then replace n else [char_of n]) s) @ [dquote]"

text \<open>\<open>int.__repr__\<close>: decimal digits, a leading minus sign for a negative number.\<close>

fun show_nat :: "nat \<Rightarrow> string" where
  "show_nat n =
     (if n < 10 then [char_of (48 + n)]
      else show_nat (n div 10) @ [char_of (48 + n mod 10)])"

declare show_nat.simps [simp del]

definition show_int :: "int \<Rightarrow> string" where
  "show_int i = (if i < 0 then CHR ''-'' # show_nat (nat (- i)) else show_nat (nat i))"

text \<open>
  \<open>json.dump\<close> with the default separators \<open>(', ', ': ')\<close>. The text of a float is
  \<open>float.__repr__\<close>, which is not modelled: it is the parameter \<open>frepr\<close>.
\<close>

fun json_dumps :: "('t \<Rightarrow> string) \<Rightarrow> 't pyval \<Rightarrow> string"
  and json_items :: "('t \<Rightarrow> string) \<Rightarrow> (pystr \<times> 't pyval) list \<Rightarrow> string"
where
  "json_dumps frepr PyNone = ''null''"
| "json_dumps frepr (PyInt i) = show_int i"
| "json_dumps frepr (PyFloat t) = frepr t"
| "json_dumps frepr (PyStr s) = py_encode_basestring_ascii s"
| "json_dumps frepr (PyDict kvs) = ''{'' @ json_items frepr kvs @ ''}''"
| "json_items frepr [] = []"
| "json_items frepr [(k, v)] =
     py_encode_basestring_ascii k @ '': '' @ json_dumps frepr v"
| "json_items frepr ((k, v) # kv # kvs) =
     py_encode_basestring_ascii k @ '': '' @ json_dumps frepr v @ '', ''
       @ json_items frepr (kv # kvs)"

section \<open>The file system, as the writer uses it\<close>

text \<open>
  A path names nothing, a directory, or a regular file with its text. Calls of the
  operating system are taken to succeed where Python documents no error for the state
  of the path itself: a disk that is full or a permission that was revoked is outside
  this model.
\<close>

datatype node = Dir | File string

type_synonym path = string

type_synonym fs = "path \<Rightarrow> node option"

datatype error =
    ValueError string
  | RuntimeError string
  | AttributeError
  | IsADirectoryError

text \<open>\<open>Path.is_dir\<close>, \<open>Path.exists\<close> and \<open>Path.touch\<close>.\<close>

definition is_dir :: "fs \<Rightarrow> path \<Rightarrow> bool" where
  "is_dir fs p \<longleftrightarrow> fs p = Some Dir"

definition path_exists :: "fs \<Rightarrow> path \<Rightarrow> bool" where
  "path_exists fs p \<longleftrightarrow> fs p \<noteq> None"

definition touch :: "path \<Rightarrow> fs \<Rightarrow> fs" where
  "touch p fs = (case fs p of None \<Rightarrow> fs(p \<mapsto> File []) | Some n \<Rightarrow> fs)"

text \<open>
  \<open>with open(p, "a", encoding="utf-8") as f: f.write(text)\<close>: a directory cannot be
  opened, a missing file is created, the text goes after what the file holds.
\<close>

definition append_text :: "path \<Rightarrow> string \<Rightarrow> fs \<Rightarrow> (error + unit) \<times> fs" where
  "append_text p text fs =
     (case fs p of
        Some Dir \<Rightarrow> (Inl IsADirectoryError, fs)
      | Some (File c) \<Rightarrow> (Inr (), fs(p \<mapsto> File (c @ text)))
      | None \<Rightarrow> (Inr (), fs(p \<mapsto> File text)))"

text \<open>The text of the file at a path; empty where there is no regular file.\<close>

definition content :: "fs \<Rightarrow> path \<Rightarrow> string" where
  "content fs p = (case fs p of Some (File c) \<Rightarrow> c | _ \<Rightarrow> [])"

section \<open>\<open>Events\<close> and \<open>JsonlDataWriter\<close>\<close>

datatype Events =
    MESSAGE
  | RAW_REACTION_ADD
  | REACTION_ADD
  | MEMBER_JOIN
  | MEMBER_REMOVE
  | INVITE_CREATE

text \<open>The value of a member of the \<open>StrEnum\<close>, which is what \<open>json.dump\<close> writes for it.\<close>

fun Events_value :: "Events \<Rightarrow> string" where
  "Events_value MESSAGE = ''message''"
| "Events_value RAW_REACTION_ADD = ''raw_reaction_add''"
| "Events_value REACTION_ADD = ''reaction_add''"
| "Events_value MEMBER_JOIN = ''member_join''"
| "Events_value MEMBER_REMOVE = ''member_remove''"
| "Events_value INVITE_CREATE = ''invite_create''"

record JsonlDataWriter =
  outfile :: path

text \<open>
  \<open>JsonlDataWriter.__init__\<close>. The result is the error raised or the writer, and the
  file system as the call leaves it.
\<close>

definition JsonlDataWriter_init :: "path \<Rightarrow> fs \<Rightarrow> (error + JsonlDataWriter) \<times> fs" where
  "JsonlDataWriter_init p fs =
     (if is_dir fs p then (Inl (ValueError ''cannot log to %s: is directory''), fs)
      else if \<not> path_exists fs p then (Inr \<lparr>outfile = p\<rparr>, touch p fs)
      else (Inr \<lparr>outfile = p\<rparr>, fs))"

text \<open>
  The dict that \<open>log\<close> builds. \<open>if data:\<close> is Python truthiness: \<open>None\<close> and the empty
  dict both leave the key out.
\<close>

definition logged_data ::
  "'t \<Rightarrow> Events \<Rightarrow> (pystr \<times> 't pyval) list option \<Rightarrow> 't pyval"
where
  "logged_data server_ts event_name data =
     (let d0 = [(str ''timestamp'', PyFloat server_ts),
                (str ''event'', PyStr (str (Events_value event_name)))]
      in case data of
           None \<Rightarrow> PyDict d0
         | Some d \<Rightarrow> if d = [] then PyDict d0 else PyDict (d0 @ [(str ''data'', PyDict d)]))"

text \<open>
  \<open>JsonlDataWriter.log\<close>. \<open>server_ts\<close> is what \<open>datetime.datetime.now().timestamp()\<close>
  returns at the call: the wall clock is an input of the model.
\<close>

definition log ::
  "('t \<Rightarrow> string) \<Rightarrow> JsonlDataWriter \<Rightarrow> 't \<Rightarrow> Events \<Rightarrow> (pystr \<times> 't pyval) list option
     \<Rightarrow> fs \<Rightarrow> (error + unit) \<times> fs"
where
  "log frepr self server_ts event_name data fs =
     append_text (outfile self)
       (json_dumps frepr (logged_data server_ts event_name data) @ [newline]) fs"

section \<open>\<open>StatCollectorClient\<close>\<close>

text \<open>
  What the handlers read of the objects of the gateway library. A cache lookup
  (\<open>get_guild\<close>, \<open>get_channel\<close>) returns \<open>None\<close> for an id it does not hold, and the
  library types \<open>member_count\<close>, the member of a reaction, the inviter of an invite and
  the name of an emoji as optional; reading an attribute of \<open>None\<close> raises
  \<open>AttributeError\<close>.
\<close>

record User =
  user_id :: int
  user_name :: pystr

record Channel =
  chan_id :: int
  chan_name :: pystr

record Message =
  author :: User
  channel :: Channel

record RawReactionActionEvent =
  channel_id :: int
  emoji_name :: "pystr option"
  member :: "User option"

record RawMemberRemoveEvent =
  user :: User

record Invite =
  invite_id :: pystr
  inviter :: "User option"

record Guild =
  member_count :: "int option"

record Cache =
  get_guild :: "int \<Rightarrow> Guild option"
  get_channel :: "int \<Rightarrow> Channel option"

record StatCollectorClient =
  guild_id :: int
  data_writer :: JsonlDataWriter

definition SAPPHIRE_ID :: int where
  "SAPPHIRE_ID = 678344927997853742"

text \<open>\<open>__get_current_member_count\<close>: \<open>if not guild.member_count\<close> holds for \<open>None\<close> and for 0.\<close>

definition get_current_member_count :: "StatCollectorClient \<Rightarrow> Cache \<Rightarrow> error + int" where
  "get_current_member_count self cache =
     (case get_guild cache (guild_id self) of
        None \<Rightarrow> Inl AttributeError
      | Some guild \<Rightarrow>
          (case member_count guild of
             None \<Rightarrow> Inl (RuntimeError ''member count is not available!'')
           | Some c \<Rightarrow>
               if c = 0 then Inl (RuntimeError ''member count is not available!'')
               else Inr c))"

text \<open>
  The handlers. Python evaluates the dict of the call before it calls \<open>log\<close>, entry by
  entry in the order written, so an error of a lookup leaves the file system as it was.
\<close>

definition pystr_opt :: "pystr option \<Rightarrow> 't pyval" where
  "pystr_opt s = (case s of None \<Rightarrow> PyNone | Some n \<Rightarrow> PyStr n)"

definition on_message ::
  "('t \<Rightarrow> string) \<Rightarrow> StatCollectorClient \<Rightarrow> Cache \<Rightarrow> 't \<Rightarrow> Message \<Rightarrow> fs
     \<Rightarrow> (error + unit) \<times> fs"
where
  "on_message frepr self cache now message fs =
     (if user_id (author message) = SAPPHIRE_ID then (Inr (), fs)
      else
        case get_current_member_count self cache of
          Inl e \<Rightarrow> (Inl e, fs)
        | Inr c \<Rightarrow>
            log frepr (data_writer self) now MESSAGE
              (Some [(str ''author_id'', PyInt (user_id (author message))),
                     (str ''author_name'', PyStr (user_name (author message))),
                     (str ''channel_id'', PyInt (chan_id (channel message))),
                     (str ''channel_name'', PyStr (chan_name (channel message))),
                     (str ''current_member_count'', PyInt c)]) fs)"

definition on_raw_reaction_add ::
  "('t \<Rightarrow> string) \<Rightarrow> StatCollectorClient \<Rightarrow> Cache \<Rightarrow> 't \<Rightarrow> RawReactionActionEvent \<Rightarrow> fs
     \<Rightarrow> (error + unit) \<times> fs"
where
  "on_raw_reaction_add frepr self cache now payload fs =
     (case get_channel cache (channel_id payload) of
        None \<Rightarrow> (Inl AttributeError, fs)
      | Some ch \<Rightarrow>
          (case member payload of
             None \<Rightarrow> (Inl AttributeError, fs)
           | Some m \<Rightarrow>
               (case get_current_member_count self cache of
                  Inl e \<Rightarrow> (Inl e, fs)
                | Inr c \<Rightarrow>
                    log frepr (data_writer self) now REACTION_ADD
                      (Some [(str ''channel_id'', PyInt (chan_id ch)),
                             (str ''channel_name'', PyStr (chan_name ch)),
                             (str ''emoji'', pystr_opt (emoji_name payload)),
                             (str ''member_name'', PyStr (user_name m)),
                             (str ''member_id'', PyInt (user_id m)),
                             (str ''current_member_count'', PyInt c)]) fs)))"

definition on_member_join ::
  "('t \<Rightarrow> string) \<Rightarrow> StatCollectorClient \<Rightarrow> Cache \<Rightarrow> 't \<Rightarrow> User \<Rightarrow> fs
     \<Rightarrow> (error + unit) \<times> fs"
where
  "on_member_join frepr self cache now m fs =
     (case get_current_member_count self cache of
        Inl e \<Rightarrow> (Inl e, fs)
      | Inr c \<Rightarrow>
          log frepr (data_writer self) now MEMBER_JOIN
            (Some [(str ''member_id'', PyInt (user_id m)),
                   (str ''current_member_count'', PyInt c)]) fs)"

definition on_raw_member_remove ::
  "('t \<Rightarrow> string) \<Rightarrow> StatCollectorClient \<Rightarrow> Cache \<Rightarrow> 't \<Rightarrow> RawMemberRemoveEvent \<Rightarrow> fs
     \<Rightarrow> (error + unit) \<times> fs"
where
  "on_raw_member_remove frepr self cache now payload fs =
     (case get_current_member_count self cache of
        Inl e \<Rightarrow> (Inl e, fs)
      | Inr c \<Rightarrow>
          log frepr (data_writer self) now MEMBER_REMOVE
            (Some [(str ''member_id'', PyInt (user_id (user payload))),
                   (str ''current_member_count'', PyInt c)]) fs)"

definition on_invite_create ::
  "('t \<Rightarrow> string) \<Rightarrow> StatCollectorClient \<Rightarrow> Cache \<Rightarrow> 't \<Rightarrow> Invite \<Rightarrow> fs
     \<Rightarrow> (error + unit) \<times> fs"
where
  "on_invite_create frepr self cache now invite fs =
     (case inviter invite of
        None \<Rightarrow> (Inl AttributeError, fs)
      | Some u \<Rightarrow>
          (case get_current_member_count self cache of
             Inl e \<Rightarrow> (Inl e, fs)
           | Inr c \<Rightarrow>
               log frepr (data_writer self) now INVITE_CREATE
                 (Some [(str ''invite_id'', PyStr (invite_id invite)),
                        (str ''inviter_id'', PyInt (user_id u)),
                        (str ''inviter_name'', PyStr (user_name u)),
                        (str ''current_member_count'', PyInt c)]) fs))"

definition on_ready :: "fs \<Rightarrow> (error + unit) \<times> fs" where
  "on_ready fs = (Inr (), fs)"

section \<open>The event stream\<close>

text \<open>The events for which \<open>StatCollectorClient\<close> defines a handler, with their arguments.\<close>

datatype Event =
    Message_event Message
  | Raw_reaction_add_event RawReactionActionEvent
  | Member_join_event User
  | Raw_member_remove_event RawMemberRemoveEvent
  | Invite_create_event Invite
  | Ready_event

text \<open>
  Modelled from the spec: the routing of an event to the handler and the loop over the
  event stream are inherited from the gateway library's client class
  (\<open>discord.Client\<close>), which is not in \<open>src/\<close>. Section 4.3 of the spec: for each
  inbound event the dispatcher selects the handler matching its kind and invokes it.
\<close>

fun handle ::
  "('t \<Rightarrow> string) \<Rightarrow> StatCollectorClient \<Rightarrow> Cache \<Rightarrow> 't \<Rightarrow> Event \<Rightarrow> fs
     \<Rightarrow> (error + unit) \<times> fs"
where
  "handle frepr self cache now (Message_event m) fs = on_message frepr self cache now m fs"
| "handle frepr self cache now (Raw_reaction_add_event p) fs =
     on_raw_reaction_add frepr self cache now p fs"
| "handle frepr self cache now (Member_join_event m) fs =
     on_member_join frepr self cache now m fs"
| "handle frepr self cache now (Raw_member_remove_event p) fs =
     on_raw_member_remove frepr self cache now p fs"
| "handle frepr self cache now (Invite_create_event i) fs =
     on_invite_create frepr self cache now i fs"
| "handle frepr self cache now Ready_event fs = on_ready fs"

text \<open>
  One delivered event: the event, the cache of the client when its handler runs and the
  reading of the wall clock that \<open>log\<close> gets if the handler reaches it.
\<close>

record 't Delivery =
  d_cache :: Cache
  d_now :: 't
  d_event :: Event

text \<open>
  Modelled from the spec: the loop over the event stream (\<open>discord.Client\<close>, not in
  \<open>src/\<close>). Sections 4.3 and 5 of the spec: events are delivered one at a time, each
  handler runs to completion before the next event; an error that a handler propagates is
  reported and the stream goes on with the next event. The reported errors are the first
  component of the result.
\<close>

fun run_events ::
  "('t \<Rightarrow> string) \<Rightarrow> StatCollectorClient \<Rightarrow> 't Delivery list \<Rightarrow> fs \<Rightarrow> error list \<times> fs"
where
  "run_events frepr self [] fs = ([], fs)"
| "run_events frepr self (d # ds) fs =
     (case handle frepr self (d_cache d) (d_now d) (d_event d) fs of
        (Inl e, fs') \<Rightarrow>
          (case run_events frepr self ds fs' of (es, fs'') \<Rightarrow> (e # es, fs''))
      | (Inr u, fs') \<Rightarrow> run_events frepr self ds fs')"

section \<open>The terms of the specification\<close>

text \<open>
  The EventNormalizer of section 4.2 of the spec, one mapping per kind: the kind and the
  payload of the record of an event, \<open>None\<close> for an event that is skipped, or the error of
  a lookup. The handlers of the source do not have it as a function of its own; that they
  compute it and pass it to \<open>log\<close> is lemma \<open>handle_normalize\<close>.
\<close>

fun normalize ::
  "StatCollectorClient \<Rightarrow> Cache \<Rightarrow> Event \<Rightarrow> error + (Events \<times> (pystr \<times> 't pyval) list) option"
where
  "normalize self cache (Message_event m) =
     (if user_id (author m) = SAPPHIRE_ID then Inr None
      else case get_current_member_count self cache of
             Inl e \<Rightarrow> Inl e
           | Inr c \<Rightarrow>
               Inr (Some (MESSAGE,
                 [(str ''author_id'', PyInt (user_id (author m))),
                  (str ''author_name'', PyStr (user_name (author m))),
                  (str ''channel_id'', PyInt (chan_id (channel m))),
                  (str ''channel_name'', PyStr (chan_name (channel m))),
                  (str ''current_member_count'', PyInt c)])))"
| "normalize self cache (Raw_reaction_add_event p) =
     (case get_channel cache (channel_id p) of
        None \<Rightarrow> Inl AttributeError
      | Some ch \<Rightarrow>
          (case member p of
             None \<Rightarrow> Inl AttributeError
           | Some m \<Rightarrow>
               (case get_current_member_count self cache of
                  Inl e \<Rightarrow> Inl e
                | Inr c \<Rightarrow>
                    Inr (Some (REACTION_ADD,
                      [(str ''channel_id'', PyInt (chan_id ch)),
                       (str ''channel_name'', PyStr (chan_name ch)),
                       (str ''emoji'', pystr_opt (emoji_name p)),
                       (str ''member_name'', PyStr (user_name m)),
                       (str ''member_id'', PyInt (user_id m)),
                       (str ''current_member_count'', PyInt c)])))))"
| "normalize self cache (Member_join_event m) =
     (case get_current_member_count self cache of
        Inl e \<Rightarrow> Inl e
      | Inr c \<Rightarrow>
          Inr (Some (MEMBER_JOIN,
            [(str ''member_id'', PyInt (user_id m)),
             (str ''current_member_count'', PyInt c)])))"
| "normalize self cache (Raw_member_remove_event p) =
     (case get_current_member_count self cache of
        Inl e \<Rightarrow> Inl e
      | Inr c \<Rightarrow>
          Inr (Some (MEMBER_REMOVE,
            [(str ''member_id'', PyInt (user_id (user p))),
             (str ''current_member_count'', PyInt c)])))"
| "normalize self cache (Invite_create_event i) =
     (case inviter i of
        None \<Rightarrow> Inl AttributeError
      | Some u \<Rightarrow>
          (case get_current_member_count self cache of
             Inl e \<Rightarrow> Inl e
           | Inr c \<Rightarrow>
               Inr (Some (INVITE_CREATE,
                 [(str ''invite_id'', PyStr (invite_id i)),
                  (str ''inviter_id'', PyInt (user_id u)),
                  (str ''inviter_name'', PyStr (user_name u)),
                  (str ''current_member_count'', PyInt c)]))))"
| "normalize self cache Ready_event = Inr None"

text \<open>The record that a delivered event puts into the journal, if it puts one.\<close>

definition emitted :: "StatCollectorClient \<Rightarrow> 't Delivery \<Rightarrow> 't pyval option" where
  "emitted self d =
     (case normalize self (d_cache d) (d_event d) of
        Inr (Some (k, dt)) \<Rightarrow> Some (logged_data (d_now d) k (Some dt))
      | _ \<Rightarrow> None)"

text \<open>The table of section 6 of the spec: the fields of \<open>data\<close> for each kind.\<close>

definition data_fields_table :: "(string \<times> string list) list" where
  "data_fields_table =
     [(''message'',
         [''author_id'', ''author_name'', ''channel_id'', ''channel_name'',
          ''current_member_count'']),
      (''reaction_add'',
         [''channel_id'', ''channel_name'', ''emoji'', ''member_name'', ''member_id'',
          ''current_member_count'']),
      (''member_join'', [''member_id'', ''current_member_count'']),
      (''member_remove'', [''member_id'', ''current_member_count'']),
      (''invite_create'',
         [''invite_id'', ''inviter_id'', ''inviter_name'', ''current_member_count''])]"

text \<open>
  The five kinds that the spec enumerates: message-posted, reaction-added, member-joined,
  member-removed, invite-created.
\<close>

definition observable_kinds :: "Events list" where
  "observable_kinds = [MESSAGE, REACTION_ADD, MEMBER_JOIN, MEMBER_REMOVE, INVITE_CREATE]"

text \<open>
  Lines of a text file: every line ends with a newline; a reader splits the text at the
  newlines, and text after the last newline counts as one more line.
\<close>

definition join_lines :: "string list \<Rightarrow> string" where
  "join_lines ls = concat (map (\<lambda>l. l @ [newline]) ls)"

fun lines_from :: "string \<Rightarrow> string \<Rightarrow> string list" where
  "lines_from cur [] = (if cur = [] then [] else [cur])"
| "lines_from cur (c # cs) =
     (if c = newline then cur # lines_from [] cs else lines_from (cur @ [c]) cs)"

definition split_lines :: "string \<Rightarrow> string list" where
  "split_lines s = lines_from [] s"

text \<open>The printable ASCII characters, space to tilde.\<close>

definition printable :: "char \<Rightarrow> bool" where
  "printable c \<longleftrightarrow> (0x20::nat) \<le> of_char c \<and> of_char c \<le> (0x7E::nat)"

text \<open>What a reader of the journal gets from a record: \<open>rec["timestamp"]\<close>, \<open>rec["event"]\<close>
  and \<open>rec["data"]["current_member_count"]\<close>.\<close>

fun record_timestamp :: "'t pyval \<Rightarrow> 't option" where
  "record_timestamp (PyDict kvs) =
     (case map_of kvs (str ''timestamp'') of Some (PyFloat t) \<Rightarrow> Some t | _ \<Rightarrow> None)"
| "record_timestamp v = None"

fun record_event :: "'t pyval \<Rightarrow> pystr option" where
  "record_event (PyDict kvs) =
     (case map_of kvs (str ''event'') of Some (PyStr s) \<Rightarrow> Some s | _ \<Rightarrow> None)"
| "record_event v = None"

fun record_member_count :: "'t pyval \<Rightarrow> int option" where
  "record_member_count (PyDict kvs) =
     (case map_of kvs (str ''data'') of
        Some (PyDict d) \<Rightarrow>
          (case map_of d (str ''current_member_count'') of
             Some (PyInt c) \<Rightarrow> Some c
           | _ \<Rightarrow> None)
      | _ \<Rightarrow> None)"
| "record_member_count v = None"

text \<open>
  A sequence of calls of \<open>log\<close> on one writer, each with the reading of the clock at the
  call; an exception of a call ends the sequence, as it does in a caller that does not
  catch it.
\<close>

fun log_all ::
  "('t \<Rightarrow> string) \<Rightarrow> JsonlDataWriter
     \<Rightarrow> ('t \<times> Events \<times> (pystr \<times> 't pyval) list option) list \<Rightarrow> fs \<Rightarrow> (error + unit) \<times> fs"
where
  "log_all frepr w [] fs = (Inr (), fs)"
| "log_all frepr w ((ts, ev, data) # calls) fs =
     (case log frepr w ts ev data fs of
        (Inl e, fs') \<Rightarrow> (Inl e, fs')
      | (Inr u, fs') \<Rightarrow> log_all frepr w calls fs')"

text \<open>The line that one call of \<open>log\<close> writes, without its newline.\<close>

definition line_of ::
  "('t \<Rightarrow> string) \<Rightarrow> 't \<times> Events \<times> (pystr \<times> 't pyval) list option \<Rightarrow> string"
where
  "line_of frepr call =
     (case call of (ts, ev, data) \<Rightarrow> json_dumps frepr (logged_data ts ev data))"

text \<open>
  \<open>float.__repr__\<close> on a float that holds a whole number of seconds \<open>n < 10 ^ 16\<close>:
  \<open>repr(2.0) = '2.0'\<close>. It is the float text of the examples.
\<close>

definition repr_seconds :: "nat \<Rightarrow> string" where
  "repr_seconds n = show_nat n @ ''.0''"

section \<open>What the encoder writes\<close>

text \<open>Every character that \<open>json.dump\<close> writes is printable ASCII, whatever the strings hold.\<close>

lemma printable_hexdigit: "printable (hexdigit d)"
proof -
  have "\<forall>c \<in> set ''0123456789abcdef''. printable c"
    by (simp add: printable_def)
  moreover have "d mod 16 < length ''0123456789abcdef''"
    by simp
  ultimately show ?thesis
    unfolding hexdigit_def using nth_mem by blast
qed

lemma printable_hex4: "c \<in> set (hex4 n) \<Longrightarrow> printable c"
  by (auto simp: hex4_def printable_hexdigit)

lemma printable_char_of: "32 \<le> n \<Longrightarrow> n \<le> 126 \<Longrightarrow> printable (char_of (n::nat))"
  by (simp add: printable_def)

lemma printable_replace: "c \<in> set (replace n) \<Longrightarrow> printable c"
  by (auto simp: replace_def ESCAPE_DCT_def Let_def printable_def 
      dest: printable_hex4 split: if_splits option.splits)

lemma printable_encode: "c \<in> set (py_encode_basestring_ascii s) \<Longrightarrow> printable c"
  by (auto simp: py_encode_basestring_ascii_def ESCAPE_ASCII_def printable_char_of
      dest: printable_replace split: if_splits) (simp add: printable_def)+

lemma printable_show_nat: "c \<in> set (show_nat n) \<Longrightarrow> printable c"
proof (induction n arbitrary: c rule: show_nat.induct)
  case (1 n)
  show ?case
  proof (cases "n < 10")
    case True
    with "1.prems" show ?thesis
      by (simp add: show_nat.simps[of n] printable_char_of)
  next
    case False
    have "printable (char_of (48 + n mod 10))"
      by (rule printable_char_of) (simp, simp add: le_trans [OF _ ] )
    with False "1.prems" "1.IH" show ?thesis
      by (auto simp: show_nat.simps[of n])
  qed
qed

lemma printable_show_int: "c \<in> set (show_int i) \<Longrightarrow> printable c"
  by (auto simp: show_int_def printable_def dest: printable_show_nat split: if_splits)

lemma all_printable_encode: "list_all printable (py_encode_basestring_ascii s)"
  by (simp add: list_all_iff printable_encode)

lemma all_printable_show_int: "list_all printable (show_int i)"
  by (simp add: list_all_iff printable_show_int)

lemma printable_separators: "list_all printable '': ''" "list_all printable '', ''"
  "list_all printable ''{''" "list_all printable ''}''" "list_all printable ''null''"
  by (simp_all add: printable_def)

lemma printable_json:
  shows "(\<And>t. list_all printable (frepr t)) \<Longrightarrow> list_all printable (json_dumps frepr v)"
    and "(\<And>t. list_all printable (frepr t)) \<Longrightarrow> list_all printable (json_items frepr kvs)"
proof (induction frepr v and frepr kvs rule: json_dumps_json_items.induct)
  case (1 frepr) then show ?case by (simp add: printable_def)
next
  case (2 frepr i) then show ?case by (simp add: all_printable_show_int)
next
  case (3 frepr t) then show ?case by simp
next
  case (4 frepr s) then show ?case by (simp add: all_printable_encode)
next
  case (5 frepr kvs) 
  then show ?case using printable_separators by simp
next
  case (6 frepr) then show ?case by simp
next
  case (7 frepr k v) then show ?case
    using printable_separators by (simp add: all_printable_encode)
next
  case (8 frepr k v kv kvs) then show ?case
    using printable_separators by (simp add: all_printable_encode)
qed

lemma not_printable_newline: "\<not> printable newline"
  by (simp add: printable_def)

lemma encode_plain:
  "\<forall>c \<in> set s. \<not> ESCAPE_ASCII (of_char c) \<Longrightarrow>
   py_encode_basestring_ascii (str s) = [dquote] @ s @ [dquote]"
proof -
  assume "\<forall>c \<in> set s. \<not> ESCAPE_ASCII (of_char c)"
  then have "concat (map (\<lambda>n. if ESCAPE_ASCII n then replace n else [char_of n]) (str s)) = s"
    by (induction s) (simp_all add: str_def)
  then show ?thesis by (simp add: py_encode_basestring_ascii_def)
qed

lemma encode_Events_value:
  "py_encode_basestring_ascii (str (Events_value ev)) = [dquote] @ Events_value ev @ [dquote]"
  by (rule encode_plain) (cases ev; simp add: ESCAPE_ASCII_def)

section \<open>Lines of the journal\<close>

lemma no_newline_printable: "list_all printable s \<Longrightarrow> newline \<notin> set s"
  by (auto simp: list_all_iff not_printable_newline)

lemma lines_from_append:
  "newline \<notin> set l \<Longrightarrow> lines_from cur (l @ newline # rest) = (cur @ l) # lines_from [] rest"
  by (induction l arbitrary: cur) auto

lemma split_lines_join:
  "\<forall>l \<in> set ls. newline \<notin> set l \<Longrightarrow> split_lines (join_lines ls @ s) = ls @ split_lines s"
proof (induction ls)
  case Nil
  then show ?case by (simp add: join_lines_def)
next
  case (Cons l ls)
  then have "split_lines (join_lines ls @ s) = ls @ split_lines s" by simp
  moreover have "join_lines (l # ls) @ s = l @ newline # (join_lines ls @ s)"
    by (simp add: join_lines_def)
  ultimately show ?case
    using Cons.prems by (simp add: split_lines_def lines_from_append)
qed

lemma split_lines_join_lines:
  "\<forall>l \<in> set ls. newline \<notin> set l \<Longrightarrow> split_lines (join_lines ls) = ls"
  using split_lines_join [of ls "[]"] by (simp add: split_lines_def)

lemma join_lines_append: "join_lines (xs @ ys) = join_lines xs @ join_lines ys"
  by (simp add: join_lines_def)

section \<open>The writer and the handlers\<close>

lemma log_regular:
  "fs (outfile w) = Some (File c) \<Longrightarrow>
   log frepr w ts ev data fs =
     (Inr (), fs(outfile w \<mapsto> File (c @ line_of frepr (ts, ev, data) @ [newline])))"
  by (simp add: log_def append_text_def line_of_def)

lemma log_all_regular:
  "fs (outfile w) = Some (File c) \<Longrightarrow>
   log_all frepr w calls fs =
     (Inr (), fs(outfile w \<mapsto> File (c @ join_lines (map (line_of frepr) calls))))"
proof (induction calls arbitrary: fs c)
  case Nil
  then show ?case by (simp add: join_lines_def fun_upd_idem)
next
  case (Cons call calls)
  obtain ts ev data where call: "call = (ts, ev, data)" by (cases call)
  let ?fs = "fs(outfile w \<mapsto> File (c @ line_of frepr call @ [newline]))"
  have "?fs (outfile w) = Some (File (c @ line_of frepr call @ [newline]))" by simp
  then have "log_all frepr w calls ?fs =
      (Inr (), ?fs(outfile w \<mapsto>
         File ((c @ line_of frepr call @ [newline]) @ join_lines (map (line_of frepr) calls))))"
    by (rule Cons.IH)
  then show ?case
    using Cons.prems by (auto simp add: call log_regular join_lines_def fun_upd_def)
qed

lemma handle_normalize:
  "handle frepr self cache now ev fs =
     (case normalize self cache ev of
        Inl e \<Rightarrow> (Inl e, fs)
      | Inr None \<Rightarrow> (Inr (), fs)
      | Inr (Some (k, d)) \<Rightarrow> log frepr (data_writer self) now k (Some d) fs)"
  by (cases ev)
     (simp_all add: on_message_def on_raw_reaction_add_def on_member_join_def
        on_raw_member_remove_def on_invite_create_def on_ready_def
        split: option.splits sum.splits)

lemma encode_key:
  "py_encode_basestring_ascii (str ''timestamp'') = quoted ''timestamp''"
  "py_encode_basestring_ascii (str ''event'') = quoted ''event''"
  "py_encode_basestring_ascii (str ''data'') = quoted ''data''"
  by (rule encode_plain, simp add: ESCAPE_ASCII_def)+

lemma line_of_printable:
  "(\<And>t. list_all printable (frepr t)) \<Longrightarrow> list_all printable (line_of frepr call)"
  by (cases call) (simp add: line_of_def printable_json(1))

lemma log_on_file:
  "fs (outfile w) \<noteq> Some Dir \<Longrightarrow>
   log frepr w ts ev data fs =
     (Inr (), fs(outfile w \<mapsto>
        File (content fs (outfile w) @ line_of frepr (ts, ev, data) @ [newline])))"
  by (cases "fs (outfile w)")
     (auto simp: log_def append_text_def line_of_def content_def split: node.splits)

lemma printable_repr_seconds: "list_all printable (repr_seconds n)"
  by (auto simp: repr_seconds_def list_all_iff printable_show_nat) (simp_all add: printable_def)

lemma repr_seconds_examples:
  "repr_seconds 1 = ''1.0''" "repr_seconds 2 = ''2.0''" "repr_seconds 3 = ''3.0''"
  by code_simp+

section \<open>The constructor of the writer\<close>



section \<open>One call of \<open>log\<close>\<close>

text \<open>
  Claim C4. A call of \<open>log\<close> on a path that is not a directory succeeds and puts
  after the text of the file exactly one line and its newline. The line holds no newline
  of its own. Its timestamp is the reading of the wall clock that \<open>log\<close> takes itself
  (the argument \<open>ts\<close> of the model); no argument of the caller supplies it. Without a
  payload (\<open>None\<close>, or the empty dict) the line is
  \<open>{"timestamp": <float>, "event": "<kind>"}\<close> with no \<open>data\<close> key; with a payload the
  line is \<open>{"timestamp": <float>, "event": "<kind>", "data": {...}}\<close>.
\<close>

theorem log_writes_one_line:
  assumes "fs (outfile w) \<noteq> Some Dir" and "\<And>t. list_all printable (frepr t)"
  shows "log frepr w ts ev data fs =
           (Inr (), fs(outfile w \<mapsto>
              File (content fs (outfile w) @ line_of frepr (ts, ev, data) @ [newline])))
     \<and> newline \<notin> set (line_of frepr (ts, ev, data))
     \<and> (data = None \<or> data = Some [] \<longrightarrow>
          line_of frepr (ts, ev, data) =
            ''{'' @ quoted ''timestamp'' @ '': '' @ frepr ts @ '', ''
              @ quoted ''event'' @ '': '' @ quoted (Events_value ev) @ ''}'')
     \<and> (\<forall>d. data = Some d \<and> d \<noteq> [] \<longrightarrow>
          line_of frepr (ts, ev, data) =
            ''{'' @ quoted ''timestamp'' @ '': '' @ frepr ts @ '', ''
              @ quoted ''event'' @ '': '' @ quoted (Events_value ev) @ '', ''
              @ quoted ''data'' @ '': '' @ json_dumps frepr (PyDict d) @ ''}'')"
proof -
  have "newline \<notin> set (line_of frepr (ts, ev, data))"
    using assms(2) by (intro no_newline_printable line_of_printable)
  moreover have "data = None \<or> data = Some [] \<Longrightarrow>
      line_of frepr (ts, ev, data) =
        ''{'' @ quoted ''timestamp'' @ '': '' @ frepr ts @ '', ''
          @ quoted ''event'' @ '': '' @ quoted (Events_value ev) @ ''}''"
    by (auto simp: line_of_def logged_data_def encode_key encode_Events_value)
  moreover have "data = Some d \<Longrightarrow> d \<noteq> [] \<Longrightarrow>
      line_of frepr (ts, ev, data) =
        ''{'' @ quoted ''timestamp'' @ '': '' @ frepr ts @ '', ''
          @ quoted ''event'' @ '': '' @ quoted (Events_value ev) @ '', ''
          @ quoted ''data'' @ '': '' @ json_dumps frepr (PyDict d) @ ''}''" for d
    by (simp add: line_of_def logged_data_def encode_key encode_Events_value)
  moreover have "log frepr w ts ev data fs =
           (Inr (), fs(outfile w \<mapsto>
              File (content fs (outfile w) @ line_of frepr (ts, ev, data) @ [newline])))"
    using assms(1) by (rule log_on_file)
  ultimately show ?thesis by blast
qed

theorem log_writes_one_line_witness:
  "log repr_seconds \<lparr>outfile = ''j''\<rparr> 2 MEMBER_JOIN None (Map.empty(''j'' \<mapsto> File ''x''))
     = (Inr (), Map.empty(''j'' \<mapsto> File (''x{'' @ quoted ''timestamp'' @ '': 2.0, ''
          @ quoted ''event'' @ '': '' @ quoted ''member_join'' @ ''}'' @ [newline])))
   \<and> log repr_seconds \<lparr>outfile = ''j''\<rparr> 2 MEMBER_JOIN (Some [(str ''n'', PyInt 5)])
        (Map.empty(''j'' \<mapsto> File ''x''))
     = (Inr (), Map.empty(''j'' \<mapsto> File (''x{'' @ quoted ''timestamp'' @ '': 2.0, ''
          @ quoted ''event'' @ '': '' @ quoted ''member_join'' @ '', '' @ quoted ''data''
          @ '': {'' @ quoted ''n'' @ '': 5}}'' @ [newline])))"
proof -
  have p: "\<And>t. list_all printable (repr_seconds t)" by (rule printable_repr_seconds)
  have d: "(Map.empty(''j'' \<mapsto> File ''x'')) (outfile \<lparr>outfile = ''j''\<rparr>) \<noteq> Some Dir" by simp
  have e: "py_encode_basestring_ascii (str ''n'') = quoted ''n''" "show_int 5 = ''5''"
    by code_simp+
  show ?thesis
    using log_writes_one_line [of "Map.empty(''j'' \<mapsto> File ''x'')" "\<lparr>outfile = ''j''\<rparr>"
        repr_seconds 2 MEMBER_JOIN None, OF d p]
      log_writes_one_line [of "Map.empty(''j'' \<mapsto> File ''x'')" "\<lparr>outfile = ''j''\<rparr>"
        repr_seconds 2 MEMBER_JOIN "Some [(str ''n'', PyInt 5)]", OF d p]
    by (simp add: content_def repr_seconds_examples e)
qed

section \<open>A sequence of calls of \<open>log\<close>\<close>

lemma content_upd: "content (fs(p \<mapsto> File c)) p = c"
  by (simp add: content_def)

text \<open>
  Claim C3. Take a journal that holds the lines \<open>old\<close>, each ended by its newline, and
  any sequence of calls of \<open>log\<close> on it. Every call succeeds, and afterwards the lines of
  the file are the lines \<open>old\<close> followed by one line for each call, in the order of the
  calls: with an empty journal at the start, \<open>N\<close> calls leave exactly \<open>N\<close> lines. The line
  of a call is the JSON text that \<open>json.dump\<close> writes for the record of the call, in
  printable ASCII characters only, so that it is one line. The lines of the file after
  the first \<open>n\<close> calls are an initial segment of its lines after all the calls: a later
  call changes no line of an earlier one. No other file is touched.
\<close>

theorem log_all_appends_lines:
  assumes "fs (outfile w) = Some (File (join_lines old))"
    and "\<forall>l \<in> set old. newline \<notin> set l"
    and "\<And>t. list_all printable (frepr t)"
  shows "fst (log_all frepr w calls fs) = Inr ()
     \<and> split_lines (content (snd (log_all frepr w calls fs)) (outfile w))
           = old @ map (line_of frepr) calls
     \<and> length (split_lines (content (snd (log_all frepr w calls fs)) (outfile w)))
           = length old + length calls
     \<and> (\<forall>call \<in> set calls. list_all printable (line_of frepr call))
     \<and> (\<forall>n \<le> length calls.
           split_lines (content (snd (log_all frepr w (take n calls) fs)) (outfile w))
             = take (length old + n)
                 (split_lines (content (snd (log_all frepr w calls fs)) (outfile w))))
     \<and> (\<forall>q. q \<noteq> outfile w \<longrightarrow> snd (log_all frepr w calls fs) q = fs q)"
proof -
  have lp: "newline \<notin> set (line_of frepr c)" for c
    using assms(3) by (intro no_newline_printable line_of_printable)
  have nl: "\<forall>l \<in> set (old @ map (line_of frepr) cs). newline \<notin> set l" for cs
    using assms(2) by (auto simp: lp)
  have run: "log_all frepr w cs fs =
      (Inr (), fs(outfile w \<mapsto> File (join_lines old @ join_lines (map (line_of frepr) cs))))"
    for cs
    using assms(1) by (rule log_all_regular)
  have lines: "split_lines (content (snd (log_all frepr w cs fs)) (outfile w))
      = old @ map (line_of frepr) cs" for cs
    using split_lines_join_lines [OF nl [of cs]]
    by (simp add: run content_upd join_lines_append)
  have "\<forall>call \<in> set calls. list_all printable (line_of frepr call)"
    using assms(3) by (simp add: line_of_printable)
  moreover have "\<forall>n \<le> length calls.
      split_lines (content (snd (log_all frepr w (take n calls) fs)) (outfile w))
        = take (length old + n)
            (split_lines (content (snd (log_all frepr w calls fs)) (outfile w)))"
    by (simp add: lines take_map)
  moreover have "\<forall>q. q \<noteq> outfile w \<longrightarrow> snd (log_all frepr w calls fs) q = fs q"
    by (simp add: run)
  ultimately show ?thesis
    by (simp add: lines) (simp add: run)
qed

theorem log_all_appends_lines_witness:
  "split_lines (content (snd (log_all repr_seconds \<lparr>outfile = ''j''\<rparr>
       [(2, MEMBER_JOIN, None), (3, MESSAGE, Some [(str ''n'', PyInt 5)])]
       (Map.empty(''j'' \<mapsto> File (join_lines [''first''])))) ) ''j'')
     = [''first'',
        ''{'' @ quoted ''timestamp'' @ '': 2.0, '' @ quoted ''event'' @ '': ''
          @ quoted ''member_join'' @ ''}'',
        ''{'' @ quoted ''timestamp'' @ '': 3.0, '' @ quoted ''event'' @ '': ''
          @ quoted ''message'' @ '', '' @ quoted ''data'' @ '': {'' @ quoted ''n''
          @ '': 5}}'']"
proof -
  have p: "\<And>t. list_all printable (repr_seconds t)" by (rule printable_repr_seconds)
  have f: "(Map.empty(''j'' \<mapsto> File (join_lines [''first''])))
             (outfile \<lparr>outfile = ''j''\<rparr>) = Some (File (join_lines [''first'']))"
    by simp
  have o: "\<forall>l \<in> set [''first'']. newline \<notin> set l" by simp
  have l: "line_of repr_seconds (2, MEMBER_JOIN, None)
      = ''{'' @ quoted ''timestamp'' @ '': 2.0, '' @ quoted ''event'' @ '': ''
          @ quoted ''member_join'' @ ''}''"
    "line_of repr_seconds (3, MESSAGE, Some [(str ''n'', PyInt 5)])
      = ''{'' @ quoted ''timestamp'' @ '': 3.0, '' @ quoted ''event'' @ '': ''
          @ quoted ''message'' @ '', '' @ quoted ''data'' @ '': {'' @ quoted ''n''
          @ '': 5}}''"
    by code_simp+
  have "split_lines (content (snd (log_all repr_seconds \<lparr>outfile = ''j''\<rparr>
       [(2, MEMBER_JOIN, None), (3, MESSAGE, Some [(str ''n'', PyInt 5)])]
       (Map.empty(''j'' \<mapsto> File (join_lines [''first''])))) ) (outfile \<lparr>outfile = ''j''\<rparr>))
     = [''first''] @ map (line_of repr_seconds)
         [(2, MEMBER_JOIN, None), (3, MESSAGE, Some [(str ''n'', PyInt 5)])]"
    using log_all_appends_lines [of "Map.empty(''j'' \<mapsto> File (join_lines [''first'']))"
        "\<lparr>outfile = ''j''\<rparr>" "[''first'']" repr_seconds
        "[(2, MEMBER_JOIN, None), (3, MESSAGE, Some [(str ''n'', PyInt 5)])]", OF f o p]
    by (rule conjunct1 [OF conjunct2])
  then show ?thesis
    by (simp add: l)
qed

section \<open>Constructing the writer on a journal that has lines\<close>

text \<open>
  Claim C6. On a path that holds \<open>M\<close> lines, each ended by its newline, constructing the
  writer succeeds and leaves the file as it was, and one call of \<open>log\<close> then leaves a file
  of exactly \<open>M + 1\<close> lines: the \<open>M\<close> lines that were there, unchanged, and after them the
  line of the call.
\<close>

theorem construct_then_log:
  assumes "fs p = Some (File (join_lines old))"
    and "\<forall>l \<in> set old. newline \<notin> set l"
    and "\<And>t. list_all printable (frepr t)"
  shows "JsonlDataWriter_init p fs = (Inr \<lparr>outfile = p\<rparr>, fs)
     \<and> fst (log frepr \<lparr>outfile = p\<rparr> ts ev data fs) = Inr ()
     \<and> split_lines (content (snd (log frepr \<lparr>outfile = p\<rparr> ts ev data fs)) p)
           = old @ [line_of frepr (ts, ev, data)]
     \<and> length (split_lines (content (snd (log frepr \<lparr>outfile = p\<rparr> ts ev data fs)) p))
           = length old + 1
     \<and> take (length old)
           (split_lines (content (snd (log frepr \<lparr>outfile = p\<rparr> ts ev data fs)) p)) = old"
proof -
  have init: "JsonlDataWriter_init p fs = (Inr \<lparr>outfile = p\<rparr>, fs)"
    using assms(1) by (simp add: JsonlDataWriter_init_def is_dir_def path_exists_def)
  have "fs (outfile \<lparr>outfile = p\<rparr>) = Some (File (join_lines old))"
    using assms(1) by simp
  then have run: "log frepr \<lparr>outfile = p\<rparr> ts ev data fs =
      (Inr (), fs(outfile \<lparr>outfile = p\<rparr> \<mapsto>
         File (join_lines old @ line_of frepr (ts, ev, data) @ [newline])))"
    by (rule log_regular)
  have "newline \<notin> set (line_of frepr (ts, ev, data))"
    using assms(3) by (intro no_newline_printable line_of_printable)
  with assms(2) have "\<forall>l \<in> set (old @ [line_of frepr (ts, ev, data)]). newline \<notin> set l"
    by simp
  then have "split_lines (join_lines (old @ [line_of frepr (ts, ev, data)]))
      = old @ [line_of frepr (ts, ev, data)]"
    by (rule split_lines_join_lines)
  then have "split_lines (content (snd (log frepr \<lparr>outfile = p\<rparr> ts ev data fs)) p)
      = old @ [line_of frepr (ts, ev, data)]"
    by (simp add: run content_upd join_lines_append) (simp add: join_lines_def)
  then show ?thesis
    by (simp add: init) (simp add: run)
qed

theorem construct_then_log_witness:
  "JsonlDataWriter_init ''j'' (Map.empty(''j'' \<mapsto> File (join_lines [''first'', ''second''])))
     = (Inr \<lparr>outfile = ''j''\<rparr>, Map.empty(''j'' \<mapsto> File (join_lines [''first'', ''second''])))
   \<and> split_lines (content (snd (log repr_seconds \<lparr>outfile = ''j''\<rparr> 3 INVITE_CREATE None
        (Map.empty(''j'' \<mapsto> File (join_lines [''first'', ''second''])))) ) ''j'')
     = [''first'', ''second'',
        ''{'' @ quoted ''timestamp'' @ '': 3.0, '' @ quoted ''event'' @ '': ''
          @ quoted ''invite_create'' @ ''}'']"
proof -
  have p: "\<And>t. list_all printable (repr_seconds t)" by (rule printable_repr_seconds)
  have f: "(Map.empty(''j'' \<mapsto> File (join_lines [''first'', ''second'']))) ''j''
             = Some (File (join_lines [''first'', ''second'']))"
    by simp
  have o: "\<forall>l \<in> set [''first'', ''second'']. newline \<notin> set l" by simp
  have l: "line_of repr_seconds (3, INVITE_CREATE, None)
      = ''{'' @ quoted ''timestamp'' @ '': 3.0, '' @ quoted ''event'' @ '': ''
          @ quoted ''invite_create'' @ ''}''"
    by code_simp
  note th = construct_then_log [of "Map.empty(''j'' \<mapsto> File (join_lines [''first'', ''second'']))"
        "''j''" "[''first'', ''second'']" repr_seconds 3 INVITE_CREATE None, OF f o p]
  have "JsonlDataWriter_init ''j'' (Map.empty(''j'' \<mapsto> File (join_lines [''first'', ''second''])))
     = (Inr \<lparr>outfile = ''j''\<rparr>, Map.empty(''j'' \<mapsto> File (join_lines [''first'', ''second''])))"
    using th by (rule conjunct1)
  moreover have "split_lines (content (snd (log repr_seconds \<lparr>outfile = ''j''\<rparr> 3 INVITE_CREATE None
        (Map.empty(''j'' \<mapsto> File (join_lines [''first'', ''second''])))) ) ''j'')
     = [''first'', ''second''] @ [line_of repr_seconds (3, INVITE_CREATE, None)]"
    using th by (rule conjunct1 [OF conjunct2 [OF conjunct2]])
  ultimately show ?thesis
    by (simp add: l)
qed

end
